theory Spec2Isabelle
  imports Complex_Main "HOL-Library.Multiset"
begin

section \<open>Bulk-tier pricing of the Sanchay group-buying marketplace\<close>

text \<open>
  The development embeds the pricing edge function
  (\<^verbatim>\<open>supabase/functions/pricing-calculator/index.ts\<close>), the cart of the
  \<^verbatim>\<open>JoinOrderModal\<close> component, the \<^verbatim>\<open>useOrderRealtime\<close> hook and the
  status buttons of \<^verbatim>\<open>OrderManagement\<close>.

  Numbers. The source computes with JavaScript numbers. Quantities are the integer
  columns of the schema and are modelled as \<^typ>\<open>int\<close>. Prices and amounts are the
  \<^verbatim>\<open>decimal(10,2)\<close> columns; they are modelled as exact rationals, so the
  rounding error of binary floating point is not part of the model. The non-finite
  results of a division by zero (\<^verbatim>\<open>NaN\<close>, \<^verbatim>\<open>Infinity\<close>) are modelled
  explicitly, see \<open>js_number\<close>.
\<close>

subsection \<open>Catalog data\<close>

text \<open>\<^verbatim>\<open>BulkTier\<close>: the two columns that pricing reads.\<close>

record BulkTier =
  min_quantity :: int
  price_per_unit :: rat

text \<open>
  \<^verbatim>\<open>InventoryItem\<close> and \<^verbatim>\<open>CartItem\<close> share the fields \<^verbatim>\<open>name\<close>,
  \<^verbatim>\<open>unit\<close>, \<^verbatim>\<open>base_price\<close> and \<^verbatim>\<open>bulk_tiers\<close>; they are the common
  parent record. \<^verbatim>\<open>bulk_tiers\<close> is optional in both TypeScript types:
  \<open>None\<close> is the absent array. The field \<^verbatim>\<open>id\<close> of an inventory row is
  called \<open>item_id\<close> here.
\<close>

record Catalog =
  name :: string
  unit :: string
  base_price :: rat
  bulk_tiers :: "BulkTier list option"

record InventoryItem = Catalog +
  item_id :: string
  minimum_quantity :: int

record CartItem = Catalog +
  inventory_id :: string
  quantity :: int

subsection \<open>Array.prototype.sort with a comparator\<close>

text \<open>
  \<^verbatim>\<open>xs.sort(cmp)\<close> is a stable sort (ECMAScript 2019 and later require it, and
  the engines of Deno and of current browsers provide it): an element \<open>x\<close> stays
  before a later element \<open>y\<close> unless \<open>cmp x y > 0\<close>. For a comparator that orders
  by a key the result is unique, and insertion from the right computes it.
\<close>

fun insert_sorted :: "('a \<Rightarrow> 'a \<Rightarrow> int) \<Rightarrow> 'a \<Rightarrow> 'a list \<Rightarrow> 'a list" where
  "insert_sorted cmp x [] = [x]"
| "insert_sorted cmp x (y # ys) =
     (if cmp x y \<le> 0 then x # y # ys else y # insert_sorted cmp x ys)"

definition js_sort :: "('a \<Rightarrow> 'a \<Rightarrow> int) \<Rightarrow> 'a list \<Rightarrow> 'a list" where
  "js_sort cmp xs = foldr (insert_sorted cmp) xs []"

subsection \<open>The pricing edge function\<close>

text \<open>
  \<^verbatim>\<open>sortedTiers\<close>: the tiers the quantity qualifies for, deepest threshold first.
\<close>

definition sortedTiers :: "BulkTier list \<Rightarrow> int \<Rightarrow> BulkTier list" where
  "sortedTiers tiers total_quantity =
     js_sort (\<lambda>a b. min_quantity b - min_quantity a)
       (filter (\<lambda>tier. total_quantity \<ge> min_quantity tier) tiers)"

definition bestPrice :: "InventoryItem \<Rightarrow> int \<Rightarrow> rat" where
  "bestPrice inventory total_quantity =
     (case bulk_tiers inventory of
        None \<Rightarrow> base_price inventory
      | Some tiers \<Rightarrow>
          if length tiers > 0 then
            (case sortedTiers tiers total_quantity of
               [] \<Rightarrow> base_price inventory
             | t # _ \<Rightarrow> price_per_unit t)
          else base_price inventory)"

definition originalTotal :: "InventoryItem \<Rightarrow> int \<Rightarrow> rat" where
  "originalTotal inventory total_quantity = base_price inventory * of_int total_quantity"

definition discountedTotal :: "InventoryItem \<Rightarrow> int \<Rightarrow> rat" where
  "discountedTotal inventory total_quantity =
     bestPrice inventory total_quantity * of_int total_quantity"

definition savings :: "InventoryItem \<Rightarrow> int \<Rightarrow> rat" where
  "savings inventory total_quantity =
     originalTotal inventory total_quantity - discountedTotal inventory total_quantity"

text \<open>
  The value of \<^verbatim>\<open>(savings / originalTotal) * 100\<close> and of what
  \<^verbatim>\<open>toFixed(1)\<close> and \<^verbatim>\<open>parseFloat\<close> make of it. A finite quotient is exact.
  A zero divisor gives \<^verbatim>\<open>NaN\<close> for a zero dividend and an infinity otherwise;
  the sign of the infinity depends on the sign of the zero, which is negative when the
  product \<^verbatim>\<open>base_price * total_quantity\<close> is zero with one negative factor.
\<close>

datatype js_number = Finite rat | NaN | PosInfinity | NegInfinity

definition negative_zero :: "rat \<Rightarrow> int \<Rightarrow> bool" where
  "negative_zero price q \<longleftrightarrow> price * of_int q = 0 \<and> (price < 0 \<or> q < 0)"

definition js_divide :: "rat \<Rightarrow> rat \<Rightarrow> bool \<Rightarrow> js_number" where
  "js_divide a b b_negative_zero =
     (if b \<noteq> 0 then Finite (a / b)
      else if a = 0 then NaN
      else if (a > 0) \<noteq> b_negative_zero then PosInfinity
      else NegInfinity)"

fun times100 :: "js_number \<Rightarrow> js_number" where
  "times100 (Finite x) = Finite (x * 100)"
| "times100 NaN = NaN"
| "times100 PosInfinity = PosInfinity"
| "times100 NegInfinity = NegInfinity"

text \<open>
  \<^verbatim>\<open>x.toFixed(1)\<close> rounds the magnitude to the nearest tenth, a tie going to
  the larger tenth, and keeps the sign; \<^verbatim>\<open>parseFloat\<close> reads the digits back.
  The strings \<^verbatim>\<open>"NaN"\<close>, \<^verbatim>\<open>"Infinity"\<close> and \<^verbatim>\<open>"-Infinity"\<close> read back
  as themselves.
  The rounding is applied to the exact quotient. The source rounds the double that the
  division and the multiplication produce, which lies a little beside the exact value
  when that is not a binary fraction; at an exact tie such as 28.75 the source can
  therefore print 28.7 where this function gives 28.8. The properties below evaluate it
  only where the double is exact.
\<close>

definition toFixed1 :: "rat \<Rightarrow> rat" where
  "toFixed1 x =
     (if x < 0 then - (of_int \<lfloor>- x * 10 + 1 / 2\<rfloor> / 10)
      else of_int \<lfloor>x * 10 + 1 / 2\<rfloor> / 10)"

fun parseFloat_toFixed1 :: "js_number \<Rightarrow> js_number" where
  "parseFloat_toFixed1 (Finite x) = Finite (toFixed1 x)"
| "parseFloat_toFixed1 NaN = NaN"
| "parseFloat_toFixed1 PosInfinity = PosInfinity"
| "parseFloat_toFixed1 NegInfinity = NegInfinity"

definition savingsPercentage :: "InventoryItem \<Rightarrow> int \<Rightarrow> js_number" where
  "savingsPercentage inventory total_quantity =
     parseFloat_toFixed1
       (times100
          (js_divide (savings inventory total_quantity)
             (originalTotal inventory total_quantity)
             (negative_zero (base_price inventory) total_quantity)))"

text \<open>
  The field \<^verbatim>\<open>applicable_tier\<close> of the response: the first tier of the array
  that the quantity qualifies for and whose price is the best price.
\<close>

definition applicable_tier :: "InventoryItem \<Rightarrow> int \<Rightarrow> BulkTier option" where
  "applicable_tier inventory total_quantity =
     (case bulk_tiers inventory of
        None \<Rightarrow> None
      | Some tiers \<Rightarrow>
          List.find (\<lambda>tier. total_quantity \<ge> min_quantity tier
                        \<and> price_per_unit tier = bestPrice inventory total_quantity) tiers)"

subsection \<open>The cart of JoinOrderModal\<close>

text \<open>
  \<^verbatim>\<open>applicableTier\<close> inside \<^verbatim>\<open>calculateItemPrice\<close>: element 0 of the
  filtered and sorted tiers, \<open>None\<close> when that array is empty or the item has no
  tiers.
\<close>

definition applicableTier :: "CartItem \<Rightarrow> BulkTier option" where
  "applicableTier item =
     (case bulk_tiers item of
        None \<Rightarrow> None
      | Some tiers \<Rightarrow>
          if length tiers > 0 then
            (case js_sort (\<lambda>a b. min_quantity b - min_quantity a)
                    (filter (\<lambda>tier. quantity item \<ge> min_quantity tier) tiers) of
               [] \<Rightarrow> None
             | t # _ \<Rightarrow> Some t)
          else None)"

definition calculateItemPrice :: "CartItem \<Rightarrow> rat" where
  "calculateItemPrice item =
     (case applicableTier item of
        None \<Rightarrow> base_price item
      | Some t \<Rightarrow> price_per_unit t) * of_int (quantity item)"

definition getTotalAmount :: "CartItem list \<Rightarrow> rat" where
  "getTotalAmount cart = foldl (\<lambda>total item. total + calculateItemPrice item) 0 cart"

text \<open>
  The rows that \<^verbatim>\<open>handleSubmit\<close> stores in the \<^verbatim>\<open>items\<close> column of
  \<^verbatim>\<open>order_participants\<close>. The unit price is computed in place:
  \<^verbatim>\<open>item.bulk_tiers?.find(tier => item.quantity >= tier.min_quantity)?.price_per_unit || item.base_price\<close>,
  where \<^verbatim>\<open>||\<close> falls back to the base price when there is no such tier or its
  price is 0.
\<close>

record ParticipationItem =
  line_inventory_id :: string
  line_name :: string
  line_quantity :: int
  unit_price :: rat
  total_price :: rat

definition submitted_unit_price :: "CartItem \<Rightarrow> rat" where
  "submitted_unit_price item =
     (case bulk_tiers item of
        None \<Rightarrow> base_price item
      | Some tiers \<Rightarrow>
          (case List.find (\<lambda>tier. quantity item \<ge> min_quantity tier) tiers of
             None \<Rightarrow> base_price item
           | Some tier \<Rightarrow>
               if price_per_unit tier \<noteq> 0 then price_per_unit tier else base_price item))"

definition submitted_item :: "CartItem \<Rightarrow> ParticipationItem" where
  "submitted_item item =
     \<lparr>line_inventory_id = inventory_id item,
      line_name = name item,
      line_quantity = quantity item,
      unit_price = submitted_unit_price item,
      total_price = calculateItemPrice item\<rparr>"

record ParticipationInsert =
  items :: "ParticipationItem list"
  insert_total_amount :: rat
  confirmed :: bool

text \<open>
  \<^verbatim>\<open>handleSubmit\<close> returns without inserting when there is no profile or the
  cart is empty.
\<close>

definition handleSubmit :: "bool \<Rightarrow> CartItem list \<Rightarrow> ParticipationInsert option" where
  "handleSubmit has_profile cart =
     (if \<not> has_profile \<or> length cart = 0 then None
      else Some \<lparr>items = map submitted_item cart,
                  insert_total_amount = getTotalAmount cart,
                  confirmed = False\<rparr>)"

text \<open>\<^verbatim>\<open>addToCart\<close> and \<^verbatim>\<open>updateQuantity\<close>; the cart starts empty.\<close>

definition addToCart :: "CartItem list \<Rightarrow> InventoryItem \<Rightarrow> CartItem list" where
  "addToCart cart item =
     (case List.find (\<lambda>cartItem. inventory_id cartItem = item_id item) cart of
        Some existingItem \<Rightarrow>
          map (\<lambda>cartItem.
                 if inventory_id cartItem = item_id item
                 then cartItem\<lparr>quantity := quantity cartItem + 1\<rparr>
                 else cartItem) cart
      | None \<Rightarrow>
          cart @ [\<lparr>name = name item,
                   unit = unit item,
                   base_price = base_price item,
                   bulk_tiers = bulk_tiers item,
                   inventory_id = item_id item,
                   quantity = minimum_quantity item\<rparr>])"

definition updateQuantity :: "CartItem list \<Rightarrow> string \<Rightarrow> int \<Rightarrow> CartItem list" where
  "updateQuantity cart i q =
     (if q \<le> 0 then filter (\<lambda>item. inventory_id item \<noteq> i) cart
      else map (\<lambda>item. if inventory_id item = i then item\<lparr>quantity := q\<rparr> else item) cart)"

datatype cart_action = AddToCart InventoryItem | UpdateQuantity string int

fun cart_step :: "CartItem list \<Rightarrow> cart_action \<Rightarrow> CartItem list" where
  "cart_step cart (AddToCart item) = addToCart cart item"
| "cart_step cart (UpdateQuantity i q) = updateQuantity cart i q"

definition run_cart :: "cart_action list \<Rightarrow> CartItem list" where
  "run_cart actions = foldl cart_step [] actions"

text \<open>The proviso on the inventory: every item that is added has \<open>minimum_quantity \<ge> 1\<close>.\<close>

fun minimum_ok :: "cart_action \<Rightarrow> bool" where
  "minimum_ok (AddToCart item) = (minimum_quantity item \<ge> 1)"
| "minimum_ok (UpdateQuantity i q) = True"

subsection \<open>The handler of the pricing edge function\<close>

text \<open>
  The request body, the response body and the query
  \<^verbatim>\<open>from('inventory').select(...).eq('id', inventory_id).single()\<close>. The table is a
  partial map from the primary key to the row with its tiers; \<^verbatim>\<open>single()\<close> yields
  an error when no row has the key. The handler throws that error, and its
  \<^verbatim>\<open>catch\<close> branch answers with status 400 and the error; otherwise the answer has
  the default status 200.
\<close>

record PricingRequest =
  req_inventory_id :: string
  total_quantity :: int

record PricingResponse =
  res_inventory_id :: string
  res_total_quantity :: int
  res_base_price :: rat
  discounted_price :: rat
  res_total_amount :: rat
  savings_amount :: rat
  savings_percentage :: js_number
  res_applicable_tier :: "BulkTier option"

datatype SupabaseError = NoSingleRow | RequestFailed

datatype ResponseBody = Pricing PricingResponse | ErrorMessage SupabaseError

record Response =
  status :: nat
  body :: ResponseBody

definition single :: "(string \<rightharpoonup> InventoryItem) \<Rightarrow> string \<Rightarrow> SupabaseError + InventoryItem" where
  "single table i = (case table i of None \<Rightarrow> Inl NoSingleRow | Some row \<Rightarrow> Inr row)"

definition serve :: "(string \<rightharpoonup> InventoryItem) \<Rightarrow> PricingRequest \<Rightarrow> Response" where
  "serve table req =
     (case single table (req_inventory_id req) of
        Inl inventoryError \<Rightarrow> \<lparr>status = 400, body = ErrorMessage inventoryError\<rparr>
      | Inr inventory \<Rightarrow>
          \<lparr>status = 200,
           body = Pricing
             \<lparr>res_inventory_id = req_inventory_id req,
              res_total_quantity = total_quantity req,
              res_base_price = base_price inventory,
              discounted_price = bestPrice inventory (total_quantity req),
              res_total_amount = discountedTotal inventory (total_quantity req),
              savings_amount = savings inventory (total_quantity req),
              savings_percentage = savingsPercentage inventory (total_quantity req),
              res_applicable_tier = applicable_tier inventory (total_quantity req)\<rparr>\<rparr>)"

subsection \<open>The useOrderRealtime hook\<close>

text \<open>
  A row of \<^verbatim>\<open>order_participants\<close> as the hook uses it: its \<^verbatim>\<open>id\<close> and its
  \<^verbatim>\<open>total_amount\<close>. The hook keeps the list of rows and a running total, both
  React state, initially \<open>[]\<close> and 0. The running total is a JavaScript number and can
  become \<^verbatim>\<open>NaN\<close>.
\<close>

record Participant =
  participant_id :: string
  total_amount :: rat

record hook_state =
  participants :: "Participant list"
  totalAmount :: js_number

definition initial_hook_state :: hook_state where
  "initial_hook_state = \<lparr>participants = [], totalAmount = Finite 0\<rparr>"

text \<open>
  Addition and subtraction of JavaScript numbers, finite values exact. A field that is
  absent reads as \<^verbatim>\<open>undefined\<close>, which arithmetic turns into \<^verbatim>\<open>NaN\<close>.
  \<^verbatim>\<open>x || 0\<close> replaces \<^verbatim>\<open>NaN\<close> and 0 by 0.
\<close>

fun js_plus :: "js_number \<Rightarrow> js_number \<Rightarrow> js_number" where
  "js_plus (Finite a) (Finite b) = Finite (a + b)"
| "js_plus NaN y = NaN"
| "js_plus x NaN = NaN"
| "js_plus PosInfinity NegInfinity = NaN"
| "js_plus NegInfinity PosInfinity = NaN"
| "js_plus PosInfinity y = PosInfinity"
| "js_plus x PosInfinity = PosInfinity"
| "js_plus NegInfinity y = NegInfinity"
| "js_plus x NegInfinity = NegInfinity"

fun js_negate :: "js_number \<Rightarrow> js_number" where
  "js_negate (Finite a) = Finite (- a)"
| "js_negate NaN = NaN"
| "js_negate PosInfinity = NegInfinity"
| "js_negate NegInfinity = PosInfinity"

definition js_minus :: "js_number \<Rightarrow> js_number \<Rightarrow> js_number" where
  "js_minus x y = js_plus x (js_negate y)"

fun number_of_field :: "rat option \<Rightarrow> js_number" where
  "number_of_field None = NaN"
| "number_of_field (Some a) = Finite a"

fun or_zero :: "js_number \<Rightarrow> js_number" where
  "or_zero NaN = Finite 0"
| "or_zero x = x"

text \<open>
  \<^verbatim>\<open>fetchParticipants\<close>, given what the select returned: an error is logged and
  the state stays as it is; data replaces the list, and the total becomes
  \<^verbatim>\<open>data.reduce((sum, p) => sum + p.total_amount, 0) || 0\<close>.
\<close>

definition reduce_total :: "Participant list \<Rightarrow> js_number" where
  "reduce_total data = foldl (\<lambda>sum p. js_plus sum (Finite (total_amount p))) (Finite 0) data"

definition fetchParticipants :: "SupabaseError + Participant list \<Rightarrow> hook_state \<Rightarrow> hook_state" where
  "fetchParticipants result s =
     (case result of
        Inl error \<Rightarrow> s
      | Inr data \<Rightarrow> \<lparr>participants = data, totalAmount = or_zero (reduce_total data)\<rparr>)"

text \<open>
  The realtime payloads. \<^verbatim>\<open>INSERT\<close> and \<^verbatim>\<open>UPDATE\<close> carry the new row.
  \<^verbatim>\<open>DELETE\<close> carries \<^verbatim>\<open>payload.old\<close>: the id of the deleted row, and its
  other columns only when the table has full replica identity, so
  \<^verbatim>\<open>payload.old.total_amount\<close> may be absent. The \<^verbatim>\<open>UPDATE\<close> branch
  replaces the row in the list and calls \<^verbatim>\<open>fetchParticipants\<close>, which is
  asynchronous: the branch leaves the total as it is, and the completion of the fetch
  is an event of its own.
\<close>

record OldRecord =
  old_id :: string
  old_total_amount :: "rat option"

datatype payload =
    INSERT Participant
  | UPDATE Participant
  | DELETE OldRecord

fun on_postgres_changes :: "hook_state \<Rightarrow> payload \<Rightarrow> hook_state" where
  "on_postgres_changes s (INSERT new) =
     \<lparr>participants = participants s @ [new],
      totalAmount = js_plus (totalAmount s) (Finite (total_amount new))\<rparr>"
| "on_postgres_changes s (UPDATE new) =
     s\<lparr>participants :=
         map (\<lambda>item. if participant_id item = participant_id new then new else item)
           (participants s)\<rparr>"
| "on_postgres_changes s (DELETE old) =
     \<lparr>participants = filter (\<lambda>item. participant_id item \<noteq> old_id old) (participants s),
      totalAmount = js_minus (totalAmount s) (number_of_field (old_total_amount old))\<rparr>"

subsection \<open>The participations of an order and what the hook sees of them\<close>

text \<open>
  The current participations of the order are the rows of \<^verbatim>\<open>order_participants\<close>
  with its \<^verbatim>\<open>order_id\<close>. A join inserts a row, an edit updates the row with the
  same id, a removal deletes the row with the given id.
\<close>

datatype operation = Join Participant | Edit Participant | Remove string

fun apply_operation :: "Participant list \<Rightarrow> operation \<Rightarrow> Participant list" where
  "apply_operation rows (Join p) = rows @ [p]"
| "apply_operation rows (Edit p) =
     map (\<lambda>row. if participant_id row = participant_id p then p else row) rows"
| "apply_operation rows (Remove i) = filter (\<lambda>row. participant_id row \<noteq> i) rows"

text \<open>
  The payload that the subscription delivers for an operation. Whether
  \<^verbatim>\<open>payload.old\<close> of a removal carries the other columns of the row is decided by
  the deployment (the replica identity of the table and row level security). The
  schema of the repository enables row level security on \<^verbatim>\<open>order_participants\<close>
  and sets no \<^verbatim>\<open>REPLICA IDENTITY FULL\<close>, so that \<^verbatim>\<open>payload.old\<close> carries
  only the id: the case \<open>False\<close>.
\<close>

fun payload_of :: "bool \<Rightarrow> Participant list \<Rightarrow> operation \<Rightarrow> payload" where
  "payload_of full_old_record rows (Join p) = INSERT p"
| "payload_of full_old_record rows (Edit p) = UPDATE p"
| "payload_of full_old_record rows (Remove i) =
     DELETE \<lparr>old_id = i,
             old_total_amount =
               (if full_old_record
                then map_option total_amount (List.find (\<lambda>row. participant_id row = i) rows)
                else None)\<rparr>"

text \<open>
  What happens to an order while the hook is mounted and subscribed: an operation on its
  participations, which queues its payload for the subscription; the delivery of the
  oldest queued payload to the handler of the hook (payloads are delivered in the order
  of the operations); or the completion of a fetch that the hook started (the one on
  mount, or the one of an \<^verbatim>\<open>UPDATE\<close> branch), with what its select returned.
\<close>

datatype happening = Op operation | Deliver | FetchDone "SupabaseError + Participant list"

record order_state =
  current :: "Participant list"
  undelivered :: "payload list"
  hook :: hook_state

fun happen :: "bool \<Rightarrow> order_state \<Rightarrow> happening \<Rightarrow> order_state" where
  "happen full_old_record st (Op operation) =
     st\<lparr>current := apply_operation (current st) operation,
        undelivered :=
          undelivered st @ [payload_of full_old_record (current st) operation]\<rparr>"
| "happen full_old_record st Deliver =
     (case undelivered st of
        [] \<Rightarrow> st
      | e # es \<Rightarrow> st\<lparr>undelivered := es, hook := on_postgres_changes (hook st) e\<rparr>)"
| "happen full_old_record st (FetchDone result) =
     st\<lparr>hook := fetchParticipants result (hook st)\<rparr>"

definition useOrderRealtime :: "bool \<Rightarrow> Participant list \<Rightarrow> happening list \<Rightarrow> order_state" where
  "useOrderRealtime full_old_record rows happenings =
     foldl (happen full_old_record)
       \<lparr>current = rows, undelivered = [], hook = initial_hook_state\<rparr> happenings"

text \<open>
  When the hook is settled at the end of a run. \<open>settled full listed summed q rows hs\<close>
  follows the run \<open>hs\<close> from a point where \<open>rows\<close> are the current participations
  and \<open>q\<close> the queued payloads. \<open>listed\<close> records that the list was last loaded by a
  successful fetch that completed with no payload queued and returned the participations
  as they then were; \<open>summed\<close> records that the total was last set by a successful
  fetch or by joins delivered after one. The run is settled when both hold at its end
  and no payload is left queued.
\<close>

fun is_insert :: "payload \<Rightarrow> bool" where
  "is_insert (INSERT new) = True"
| "is_insert (UPDATE new) = False"
| "is_insert (DELETE old) = False"

fun settled ::
    "bool \<Rightarrow> bool \<Rightarrow> bool \<Rightarrow> payload list \<Rightarrow> Participant list \<Rightarrow> happening list \<Rightarrow> bool" where
  "settled full listed summed q rows [] = (listed \<and> summed \<and> q = [])"
| "settled full listed summed q rows (FetchDone result # hs) =
     (case result of
        Inl error \<Rightarrow> settled full listed summed q rows hs
      | Inr data \<Rightarrow> settled full (q = [] \<and> mset data = mset rows) True q rows hs)"
| "settled full listed summed q rows (Op operation # hs) =
     settled full listed summed (q @ [payload_of full rows operation])
       (apply_operation rows operation) hs"
| "settled full listed summed q rows (Deliver # hs) =
     (case q of
        [] \<Rightarrow> settled full listed summed q rows hs
      | e # es \<Rightarrow> settled full listed (summed \<and> is_insert e) es rows hs)"

text \<open>
  The two facts behind a settled hook: the list, once the queued payloads are handled,
  holds the current participations; and the total is the sum of the listed amounts.
\<close>

definition listed_current :: "order_state \<Rightarrow> bool" where
  "listed_current st \<longleftrightarrow>
     mset (participants (foldl on_postgres_changes (hook st) (undelivered st)))
       = mset (current st)"

definition total_summed :: "hook_state \<Rightarrow> bool" where
  "total_summed s \<longleftrightarrow>
     totalAmount s = Finite (sum_list (map total_amount (participants s)))"

subsection \<open>The status of a group order\<close>











subsection \<open>Example data\<close>

definition tiers_10_25_50 :: "BulkTier list" where
  "tiers_10_25_50 =
     [\<lparr>min_quantity = 10, price_per_unit = 90\<rparr>,
      \<lparr>min_quantity = 25, price_per_unit = 80\<rparr>,
      \<lparr>min_quantity = 50, price_per_unit = 70\<rparr>]"

definition example_inventory :: "rat \<Rightarrow> BulkTier list \<Rightarrow> InventoryItem" where
  "example_inventory price tiers =
     \<lparr>name = ''rice'', unit = ''kg'', base_price = price, bulk_tiers = Some tiers,
      item_id = ''i1'', minimum_quantity = 1\<rparr>"

definition example_line :: "rat \<Rightarrow> BulkTier list \<Rightarrow> int \<Rightarrow> CartItem" where
  "example_line price tiers q =
     \<lparr>name = ''rice'', unit = ''kg'', base_price = price, bulk_tiers = Some tiers,
      inventory_id = ''i1'', quantity = q\<rparr>"

section \<open>Properties\<close>

subsection \<open>The sort and the head of the sorted tiers\<close>

lemma insert_sorted_insort_key:
  "insert_sorted (\<lambda>a b. f b - f a) x ys = insort_key (\<lambda>t. - f t) x ys"
  by (induction ys) auto

lemma js_sort_sort_key:
  "js_sort (\<lambda>a b. f b - f a) xs = sort_key (\<lambda>t. - f t) xs"
  unfolding js_sort_def sort_key_def
  by (induction xs) (simp_all add: insert_sorted_insort_key)

lemma find_filter_hd:
  "filter P xs = y # ys \<Longrightarrow> List.find P xs = Some y"
  by (induction xs) (auto split: if_splits)

lemma sorted_head_properties:
  fixes f :: "'a \<Rightarrow> int"
  assumes "js_sort (\<lambda>a b. f b - f a) (filter Q xs) = t # rest"
  shows "t \<in> set xs" and "Q t" and "\<forall>u\<in>set xs. Q u \<longrightarrow> f u \<le> f t"
    and "List.find (\<lambda>u. Q u \<and> f u = f t) xs = Some t"
proof -
  let ?k = "\<lambda>t. - f t"
  have eq: "sort_key ?k (filter Q xs) = t # rest"
    using assms by (simp add: js_sort_sort_key)
  have "set (t # rest) = set (filter Q xs)"
    using eq set_sort [of ?k "filter Q xs"] by simp
  then have mem: "t \<in> set (filter Q xs)" and sub: "set (filter Q xs) \<subseteq> set (t # rest)"
    by auto
  from mem show "t \<in> set xs" and "Q t" by simp_all
  have srt: "sorted (map ?k (t # rest))"
    using eq sorted_sort_key [of ?k "filter Q xs"] by simp
  show "\<forall>u\<in>set xs. Q u \<longrightarrow> f u \<le> f t"
  proof (intro ballI impI)
    fix u assume "u \<in> set xs" and "Q u"
    then have "u \<in> set (t # rest)" using sub by auto
    then show "f u \<le> f t" using srt by auto
  qed
  have "filter (\<lambda>y. ?k y = ?k t) (sort_key ?k (filter Q xs))
        = filter (\<lambda>y. ?k y = ?k t) (filter Q xs)"
    by (rule sort_key_stable)
  then have "filter (\<lambda>y. ?k y = ?k t) (filter Q xs)
        = t # filter (\<lambda>y. ?k y = ?k t) rest"
    using eq by simp
  then have "filter (\<lambda>u. Q u \<and> f u = f t) xs = t # filter (\<lambda>y. ?k y = ?k t) rest"
    by (simp add: conj_commute)
  then show "List.find (\<lambda>u. Q u \<and> f u = f t) xs = Some t"
    by (rule find_filter_hd)
qed

lemma sorted_nonempty:
  "u \<in> set xs \<Longrightarrow> Q u \<Longrightarrow> js_sort cmp (filter Q xs) \<noteq> []"
proof -
  have ins: "\<And>x ys. insert_sorted cmp x ys \<noteq> []"
  proof -
    fix x :: 'a and ys show "insert_sorted cmp x ys \<noteq> []" by (cases ys) auto
  qed
  assume "u \<in> set xs" and "Q u"
  then have "filter Q xs \<noteq> []" by (auto simp: filter_empty_conv)
  then obtain z zs where "filter Q xs = z # zs" by (cases "filter Q xs") auto
  then show ?thesis by (simp add: js_sort_def ins)
qed

lemma sorted_empty:
  "\<forall>u\<in>set xs. \<not> Q u \<Longrightarrow> js_sort cmp (filter Q xs) = []"
  by (simp add: js_sort_def filter_empty_conv [THEN iffD2])

lemma sortedTiers_head:
  assumes "sortedTiers tiers q = t # rest"
  shows "t \<in> set tiers" and "min_quantity t \<le> q"
    and "\<forall>u\<in>set tiers. min_quantity u \<le> q \<longrightarrow> min_quantity u \<le> min_quantity t"
    and "List.find (\<lambda>u. min_quantity u \<le> q \<and> min_quantity u = min_quantity t) tiers = Some t"
  using sorted_head_properties [of min_quantity "\<lambda>tier. q \<ge> min_quantity tier" tiers t rest] assms
  unfolding sortedTiers_def by simp_all

lemma sortedTiers_nonempty:
  "u \<in> set tiers \<Longrightarrow> min_quantity u \<le> q \<Longrightarrow> \<exists>t rest. sortedTiers tiers q = t # rest"
  using sorted_nonempty [of u tiers "\<lambda>tier. q \<ge> min_quantity tier"]
  unfolding sortedTiers_def by (simp add: neq_Nil_conv)

lemma sortedTiers_empty:
  "\<forall>t\<in>set tiers. q < min_quantity t \<Longrightarrow> sortedTiers tiers q = []"
  unfolding sortedTiers_def by (rule sorted_empty) auto

lemma bestPrice_head:
  "bulk_tiers inventory = Some tiers \<Longrightarrow> sortedTiers tiers q = t # rest
   \<Longrightarrow> bestPrice inventory q = price_per_unit t"
  by (cases tiers) (simp_all add: bestPrice_def sortedTiers_def js_sort_def)

lemma applicableTier_sorted:
  "bulk_tiers item = Some tiers \<Longrightarrow>
   applicableTier item = (case sortedTiers tiers (quantity item) of [] \<Rightarrow> None | t # _ \<Rightarrow> Some t)"
  by (cases tiers) (simp_all add: applicableTier_def sortedTiers_def js_sort_def)

lemma applicableTier_Some:
  assumes "applicableTier item = Some t"
  shows "\<exists>tiers rest. bulk_tiers item = Some tiers \<and> sortedTiers tiers (quantity item) = t # rest"
proof (cases "bulk_tiers item")
  case None
  with assms show ?thesis by (simp add: applicableTier_def)
next
  case (Some tiers)
  with assms show ?thesis
    by (auto simp: applicableTier_sorted split: list.splits)
qed

subsection \<open>Tier resolution\<close>

lemma example_tiers_edge:
  assumes "base_price inventory = 100"
    and "bulk_tiers inventory =
          Some [\<lparr>min_quantity = 10, price_per_unit = 90\<rparr>,
                \<lparr>min_quantity = 25, price_per_unit = 80\<rparr>,
                \<lparr>min_quantity = 50, price_per_unit = 70\<rparr>]"
  shows "bestPrice inventory 30 = 80" and "discountedTotal inventory 30 = 2400"
    and "originalTotal inventory 30 = 3000" and "savings inventory 30 = 600"
    and "savingsPercentage inventory 30 = Finite 20"
    and "bestPrice inventory 25 = 80"
proof -
  show bp: "bestPrice inventory 30 = 80"
    using assms by (simp add: bestPrice_def sortedTiers_def js_sort_def)
  show dt: "discountedTotal inventory 30 = 2400"
    using bp by (simp add: discountedTotal_def)
  show ot: "originalTotal inventory 30 = 3000"
    using assms by (simp add: originalTotal_def)
  show sv: "savings inventory 30 = 600"
    using dt ot by (simp add: savings_def)
  have "\<lfloor>(401::rat) / 2\<rfloor> = 200" by code_simp
  then have "toFixed1 20 = 20" by (simp add: toFixed1_def)
  then show "savingsPercentage inventory 30 = Finite 20"
    using sv ot by (simp add: savingsPercentage_def js_divide_def)
  show "bestPrice inventory 25 = 80"
    using assms by (simp add: bestPrice_def sortedTiers_def js_sort_def)
qed

text \<open>
  C1. Whenever some tier has \<open>min_quantity \<le> quantity\<close> (the boundary included), the
  edge function takes element 0 of \<open>sortedTiers\<close>, which is a tier of the item that the
  quantity qualifies for and whose \<open>min_quantity\<close> is the largest among the qualifying
  tiers, and prices the request at its \<open>price_per_unit\<close>; the cart's
  \<open>calculateItemPrice\<close> does the same. For base price 100 and tiers
  10 \<rightarrow> 90, 25 \<rightarrow> 80, 50 \<rightarrow> 70, quantity 30 is priced at 80 a unit, total 2400, base
  total 3000, savings 600, that is 20.0 percent. The quantity need not be positive for
  this to hold.
\<close>

theorem C1_deepest_qualifying_tier:
  "(bulk_tiers inventory = Some tiers \<and> u \<in> set tiers \<and> min_quantity u \<le> q \<longrightarrow>
      (\<exists>t rest. sortedTiers tiers q = t # rest \<and> t \<in> set tiers \<and> min_quantity t \<le> q
         \<and> (\<forall>v\<in>set tiers. min_quantity v \<le> q \<longrightarrow> min_quantity v \<le> min_quantity t)
         \<and> bestPrice inventory q = price_per_unit t
         \<and> discountedTotal inventory q = price_per_unit t * of_int q))
   \<and> (bulk_tiers item = Some tiers' \<and> u' \<in> set tiers' \<and> min_quantity u' \<le> quantity item \<longrightarrow>
      (\<exists>t. applicableTier item = Some t \<and> t \<in> set tiers' \<and> min_quantity t \<le> quantity item
         \<and> (\<forall>v\<in>set tiers'. min_quantity v \<le> quantity item
               \<longrightarrow> min_quantity v \<le> min_quantity t)
         \<and> calculateItemPrice item = price_per_unit t * of_int (quantity item)))
   \<and> (base_price rice = 100
       \<and> bulk_tiers rice = Some [\<lparr>min_quantity = 10, price_per_unit = 90\<rparr>,
                                 \<lparr>min_quantity = 25, price_per_unit = 80\<rparr>,
                                 \<lparr>min_quantity = 50, price_per_unit = 70\<rparr>] \<longrightarrow>
      bestPrice rice 30 = 80 \<and> discountedTotal rice 30 = 2400 \<and> originalTotal rice 30 = 3000
      \<and> savings rice 30 = 600 \<and> savingsPercentage rice 30 = Finite 20
      \<and> bestPrice rice 25 = 80)"
proof (rule conjI [OF impI conjI [OF impI impI]])
  assume h: "bulk_tiers inventory = Some tiers \<and> u \<in> set tiers \<and> min_quantity u \<le> q"
  then obtain t rest where s: "sortedTiers tiers q = t # rest"
    using sortedTiers_nonempty by blast
  have "bestPrice inventory q = price_per_unit t"
    using h s by (simp add: bestPrice_head)
  then show "\<exists>t rest. sortedTiers tiers q = t # rest \<and> t \<in> set tiers \<and> min_quantity t \<le> q
         \<and> (\<forall>v\<in>set tiers. min_quantity v \<le> q \<longrightarrow> min_quantity v \<le> min_quantity t)
         \<and> bestPrice inventory q = price_per_unit t
         \<and> discountedTotal inventory q = price_per_unit t * of_int q"
    using s sortedTiers_head(1-3) [OF s] by (auto simp: discountedTotal_def)
next
  assume h: "bulk_tiers item = Some tiers' \<and> u' \<in> set tiers'
             \<and> min_quantity u' \<le> quantity item"
  then obtain t rest where s: "sortedTiers tiers' (quantity item) = t # rest"
    using sortedTiers_nonempty by blast
  have a: "applicableTier item = Some t"
    using h s by (simp add: applicableTier_sorted)
  then have "calculateItemPrice item = price_per_unit t * of_int (quantity item)"
    by (simp add: calculateItemPrice_def)
  then show "\<exists>t. applicableTier item = Some t \<and> t \<in> set tiers'
         \<and> min_quantity t \<le> quantity item
         \<and> (\<forall>v\<in>set tiers'. min_quantity v \<le> quantity item
               \<longrightarrow> min_quantity v \<le> min_quantity t)
         \<and> calculateItemPrice item = price_per_unit t * of_int (quantity item)"
    using a sortedTiers_head(1-3) [OF s] by auto
next
  assume "base_price rice = 100
       \<and> bulk_tiers rice = Some [\<lparr>min_quantity = 10, price_per_unit = 90\<rparr>,
                                 \<lparr>min_quantity = 25, price_per_unit = 80\<rparr>,
                                 \<lparr>min_quantity = 50, price_per_unit = 70\<rparr>]"
  then show "bestPrice rice 30 = 80 \<and> discountedTotal rice 30 = 2400
      \<and> originalTotal rice 30 = 3000
      \<and> savings rice 30 = 600 \<and> savingsPercentage rice 30 = Finite 20
      \<and> bestPrice rice 25 = 80"
    using example_tiers_edge [of rice] by simp
qed

theorem C1_deepest_qualifying_tier_witness:
  "bulk_tiers (example_inventory 100 tiers_10_25_50) = Some tiers_10_25_50
   \<and> \<lparr>min_quantity = 25, price_per_unit = 80\<rparr> \<in> set tiers_10_25_50
   \<and> min_quantity \<lparr>min_quantity = 25, price_per_unit = 80\<rparr> \<le> 30
   \<and> sortedTiers tiers_10_25_50 30
       = [\<lparr>min_quantity = 25, price_per_unit = 80\<rparr>, \<lparr>min_quantity = 10, price_per_unit = 90\<rparr>]
   \<and> bestPrice (example_inventory 100 tiers_10_25_50) 30 = 80
   \<and> discountedTotal (example_inventory 100 tiers_10_25_50) 30 = 2400
   \<and> originalTotal (example_inventory 100 tiers_10_25_50) 30 = 3000
   \<and> savings (example_inventory 100 tiers_10_25_50) 30 = 600
   \<and> savingsPercentage (example_inventory 100 tiers_10_25_50) 30 = Finite 20
   \<and> applicableTier (example_line 100 tiers_10_25_50 30)
       = Some \<lparr>min_quantity = 25, price_per_unit = 80\<rparr>
   \<and> calculateItemPrice (example_line 100 tiers_10_25_50 30) = 2400"
proof -
  let ?t = "\<lparr>min_quantity = 25, price_per_unit = 80\<rparr>"
  have s: "sortedTiers tiers_10_25_50 30
       = [?t, \<lparr>min_quantity = 10, price_per_unit = 90\<rparr>]"
    by (simp add: sortedTiers_def js_sort_def tiers_10_25_50_def)
  have h: "bulk_tiers (example_inventory 100 tiers_10_25_50) = Some tiers_10_25_50"
      "bulk_tiers (example_line 100 tiers_10_25_50 30) = Some tiers_10_25_50"
      "base_price (example_inventory 100 tiers_10_25_50) = 100"
      "quantity (example_line 100 tiers_10_25_50 30) = 30"
      "?t \<in> set tiers_10_25_50" "min_quantity ?t \<le> 30"
    by (simp_all add: example_inventory_def example_line_def tiers_10_25_50_def)
  show ?thesis
    using C1_deepest_qualifying_tier
      [of "example_inventory 100 tiers_10_25_50" tiers_10_25_50 ?t 30
          "example_line 100 tiers_10_25_50 30" tiers_10_25_50 ?t
          "example_inventory 100 tiers_10_25_50"]
      s h
    by (auto simp: tiers_10_25_50_def)
qed

text \<open>
  C7. When the item has no tier array, an empty one, or only tiers whose
  \<open>min_quantity\<close> exceeds the quantity, the edge function prices at the item's
  \<open>base_price\<close> and reports no applicable tier, and the cart's
  \<open>calculateItemPrice\<close> finds no tier and charges \<open>base_price\<close> times the quantity.
  This holds for every quantity, in particular for every quantity of at least 1.
\<close>

theorem C7_no_qualifying_tier_base_price:
  "((\<forall>tiers. bulk_tiers inventory = Some tiers \<longrightarrow> (\<forall>t\<in>set tiers. q < min_quantity t)) \<longrightarrow>
      bestPrice inventory q = base_price inventory
      \<and> applicable_tier inventory q = None
      \<and> discountedTotal inventory q = base_price inventory * of_int q)
   \<and> ((\<forall>tiers. bulk_tiers item = Some tiers
          \<longrightarrow> (\<forall>t\<in>set tiers. quantity item < min_quantity t)) \<longrightarrow>
      applicableTier item = None
      \<and> calculateItemPrice item = base_price item * of_int (quantity item))"
proof (rule conjI [OF impI impI])
  assume h: "\<forall>tiers. bulk_tiers inventory = Some tiers \<longrightarrow> (\<forall>t\<in>set tiers. q < min_quantity t)"
  have bp: "bestPrice inventory q = base_price inventory"
  proof (cases "bulk_tiers inventory")
    case None
    then show ?thesis by (simp add: bestPrice_def)
  next
    case (Some tiers)
    then have "sortedTiers tiers q = []" using h sortedTiers_empty by blast
    with Some show ?thesis by (simp add: bestPrice_def)
  qed
  have at: "applicable_tier inventory q = None"
  proof (cases "bulk_tiers inventory")
    case None
    then show ?thesis by (simp add: applicable_tier_def)
  next
    case (Some tiers)
    then have "\<forall>t\<in>set tiers. \<not> min_quantity t \<le> q" using h by fastforce
    with Some show ?thesis by (auto simp: applicable_tier_def find_None_iff)
  qed
  from bp at show "bestPrice inventory q = base_price inventory
      \<and> applicable_tier inventory q = None
      \<and> discountedTotal inventory q = base_price inventory * of_int q"
    by (simp add: discountedTotal_def)
next
  assume h: "\<forall>tiers. bulk_tiers item = Some tiers
          \<longrightarrow> (\<forall>t\<in>set tiers. quantity item < min_quantity t)"
  have "applicableTier item = None"
  proof (cases "bulk_tiers item")
    case None
    then show ?thesis by (simp add: applicableTier_def)
  next
    case (Some tiers)
    then have "sortedTiers tiers (quantity item) = []" using h sortedTiers_empty by blast
    with Some show ?thesis by (simp add: applicableTier_sorted)
  qed
  then show "applicableTier item = None
      \<and> calculateItemPrice item = base_price item * of_int (quantity item)"
    by (simp add: calculateItemPrice_def)
qed

theorem C7_no_qualifying_tier_base_price_witness:
  "bulk_tiers (example_inventory 100 tiers_10_25_50) = Some tiers_10_25_50
   \<and> list_all (\<lambda>t. 5 < min_quantity t) tiers_10_25_50
   \<and> bestPrice (example_inventory 100 tiers_10_25_50) 5 = 100
   \<and> applicable_tier (example_inventory 100 tiers_10_25_50) 5 = None
   \<and> discountedTotal (example_inventory 100 tiers_10_25_50) 5 = 500
   \<and> bulk_tiers (example_line 100 [] 1) = Some []
   \<and> applicableTier (example_line 100 [] 1) = None
   \<and> calculateItemPrice (example_line 100 [] 1) = 100"
proof -
  have b: "bulk_tiers (example_inventory 100 tiers_10_25_50) = Some tiers_10_25_50"
      "bulk_tiers (example_line 100 [] 1) = Some []"
    by (simp_all add: example_inventory_def example_line_def)
  have a: "list_all (\<lambda>t. 5 < min_quantity t) tiers_10_25_50"
    by (simp add: tiers_10_25_50_def)
  have h1: "\<forall>tiers. bulk_tiers (example_inventory 100 tiers_10_25_50) = Some tiers
        \<longrightarrow> (\<forall>t\<in>set tiers. 5 < min_quantity t)"
    using a b by (simp add: list_all_iff)
  have h2: "\<forall>tiers. bulk_tiers (example_line 100 [] 1) = Some tiers
        \<longrightarrow> (\<forall>t\<in>set tiers. quantity (example_line 100 [] 1) < min_quantity t)"
    using b by simp
  have v: "base_price (example_inventory 100 tiers_10_25_50) = 100"
      "base_price (example_line 100 [] 1) = 100" "quantity (example_line 100 [] 1) = 1"
    by (simp_all add: example_inventory_def example_line_def)
  show ?thesis
    using C7_no_qualifying_tier_base_price
      [of "example_inventory 100 tiers_10_25_50" 5 "example_line 100 [] 1"] h1 h2 v a b
    by simp
qed

text \<open>
  C8. For a fixed tier array and quantities \<open>q1 < q2\<close> that both select a tier, the tier
  selected for \<open>q2\<close> has a \<open>min_quantity\<close> at least that of the tier selected for
  \<open>q1\<close>. The selected tier is element 0 of \<open>sortedTiers\<close> in the edge function and
  \<open>applicableTier\<close> in the cart.
\<close>

theorem C8_selection_monotone:
  "(q1 < q2 \<and> sortedTiers tiers q1 = t1 # rest1 \<and> sortedTiers tiers q2 = t2 # rest2 \<longrightarrow>
      min_quantity t1 \<le> min_quantity t2)
   \<and> (quantity item1 < quantity item2 \<and> bulk_tiers item1 = bulk_tiers item2
       \<and> applicableTier item1 = Some u1 \<and> applicableTier item2 = Some u2 \<longrightarrow>
      min_quantity u1 \<le> min_quantity u2)"
proof (rule conjI [OF impI impI])
  assume h: "q1 < q2 \<and> sortedTiers tiers q1 = t1 # rest1 \<and> sortedTiers tiers q2 = t2 # rest2"
  then have "t1 \<in> set tiers" and "min_quantity t1 \<le> q1"
    using sortedTiers_head(1,2) by blast+
  moreover have "\<forall>u\<in>set tiers. min_quantity u \<le> q2 \<longrightarrow> min_quantity u \<le> min_quantity t2"
    using h sortedTiers_head(3) by blast
  ultimately show "min_quantity t1 \<le> min_quantity t2" using h by force
next
  assume h: "quantity item1 < quantity item2 \<and> bulk_tiers item1 = bulk_tiers item2
       \<and> applicableTier item1 = Some u1 \<and> applicableTier item2 = Some u2"
  then obtain tiers r1 where a: "bulk_tiers item1 = Some tiers"
      "sortedTiers tiers (quantity item1) = u1 # r1"
    using applicableTier_Some by blast
  obtain tiers' r2 where b: "bulk_tiers item2 = Some tiers'"
      "sortedTiers tiers' (quantity item2) = u2 # r2"
    using h applicableTier_Some by blast
  have same: "tiers' = tiers" using a b h by simp
  have "u1 \<in> set tiers" and "min_quantity u1 \<le> quantity item1"
    using a sortedTiers_head(1,2) by blast+
  moreover have "\<forall>u\<in>set tiers. min_quantity u \<le> quantity item2
                   \<longrightarrow> min_quantity u \<le> min_quantity u2"
    using b same sortedTiers_head(3) by blast
  ultimately show "min_quantity u1 \<le> min_quantity u2" using h by force
qed

theorem C8_selection_monotone_witness:
  "(12::int) < 30
   \<and> sortedTiers tiers_10_25_50 12 = [\<lparr>min_quantity = 10, price_per_unit = 90\<rparr>]
   \<and> sortedTiers tiers_10_25_50 30
       = [\<lparr>min_quantity = 25, price_per_unit = 80\<rparr>, \<lparr>min_quantity = 10, price_per_unit = 90\<rparr>]
   \<and> quantity (example_line 100 tiers_10_25_50 12) < quantity (example_line 100 tiers_10_25_50 30)
   \<and> bulk_tiers (example_line 100 tiers_10_25_50 12) = bulk_tiers (example_line 100 tiers_10_25_50 30)
   \<and> applicableTier (example_line 100 tiers_10_25_50 12)
       = Some \<lparr>min_quantity = 10, price_per_unit = 90\<rparr>
   \<and> applicableTier (example_line 100 tiers_10_25_50 30)
       = Some \<lparr>min_quantity = 25, price_per_unit = 80\<rparr>
   \<and> min_quantity \<lparr>min_quantity = 10, price_per_unit = 90\<rparr>
       \<le> min_quantity \<lparr>min_quantity = 25, price_per_unit = 80\<rparr>"
proof -
  have s: "sortedTiers tiers_10_25_50 12 = [\<lparr>min_quantity = 10, price_per_unit = 90\<rparr>]"
      "sortedTiers tiers_10_25_50 30
       = [\<lparr>min_quantity = 25, price_per_unit = 80\<rparr>, \<lparr>min_quantity = 10, price_per_unit = 90\<rparr>]"
    by (simp_all add: sortedTiers_def js_sort_def tiers_10_25_50_def)
  have l: "quantity (example_line 100 tiers_10_25_50 12) = 12"
      "quantity (example_line 100 tiers_10_25_50 30) = 30"
      "bulk_tiers (example_line 100 tiers_10_25_50 12) = Some tiers_10_25_50"
      "bulk_tiers (example_line 100 tiers_10_25_50 30) = Some tiers_10_25_50"
    by (simp_all add: example_line_def)
  have a: "applicableTier (example_line 100 tiers_10_25_50 12)
       = Some \<lparr>min_quantity = 10, price_per_unit = 90\<rparr>"
      "applicableTier (example_line 100 tiers_10_25_50 30)
       = Some \<lparr>min_quantity = 25, price_per_unit = 80\<rparr>"
    using s l by (simp_all add: applicableTier_sorted)
  show ?thesis
    using C8_selection_monotone
      [of 12 30 tiers_10_25_50 "\<lparr>min_quantity = 10, price_per_unit = 90\<rparr>" "[]"
          "\<lparr>min_quantity = 25, price_per_unit = 80\<rparr>" "[\<lparr>min_quantity = 10, price_per_unit = 90\<rparr>]"
          "example_line 100 tiers_10_25_50 12" "example_line 100 tiers_10_25_50 30"
          "\<lparr>min_quantity = 10, price_per_unit = 90\<rparr>" "\<lparr>min_quantity = 25, price_per_unit = 80\<rparr>"]
      s l a
    by simp
qed

text \<open>
  C3, as the code has it. The claim that a tie on the largest \<open>min_quantity\<close> goes to
  the lowest price fails: for the tiers 20 \<rightarrow> 85 and 20 \<rightarrow> 82, listed in this order, and
  quantity 20 the selected tier is 20 \<rightarrow> 85.
\<close>

theorem C3_tie_counterexample:
  "sortedTiers [\<lparr>min_quantity = 20, price_per_unit = 85\<rparr>,
                \<lparr>min_quantity = 20, price_per_unit = 82\<rparr>] 20
     = [\<lparr>min_quantity = 20, price_per_unit = 85\<rparr>, \<lparr>min_quantity = 20, price_per_unit = 82\<rparr>]
   \<and> bestPrice (example_inventory 100 [\<lparr>min_quantity = 20, price_per_unit = 85\<rparr>,
                                        \<lparr>min_quantity = 20, price_per_unit = 82\<rparr>]) 20 = 85
   \<and> applicableTier (example_line 100 [\<lparr>min_quantity = 20, price_per_unit = 85\<rparr>,
                                        \<lparr>min_quantity = 20, price_per_unit = 82\<rparr>] 20)
     \<noteq> Some \<lparr>min_quantity = 20, price_per_unit = 82\<rparr>"
  by (simp add: sortedTiers_def js_sort_def bestPrice_def applicableTier_def
        example_inventory_def example_line_def)

text \<open>
  C3, amended. The selected tier is the first tier of the array, in array order, among
  the qualifying tiers with the largest \<open>min_quantity\<close>; prices play no part in the
  choice. For the tiers 20 \<rightarrow> 85 and 20 \<rightarrow> 82 and quantity 20 the price is 85 when
  20 \<rightarrow> 85 is listed first and 82 when 20 \<rightarrow> 82 is listed first.
\<close>

theorem C3_tie_first_listed:
  "(sortedTiers tiers q = t # rest \<longrightarrow>
      List.find (\<lambda>u. min_quantity u \<le> q \<and> min_quantity u = min_quantity t) tiers = Some t
      \<and> (\<forall>v\<in>set tiers. min_quantity v \<le> q \<longrightarrow> min_quantity v \<le> min_quantity t))
   \<and> (bulk_tiers item = Some tiers' \<and> applicableTier item = Some t' \<longrightarrow>
      List.find (\<lambda>u. min_quantity u \<le> quantity item \<and> min_quantity u = min_quantity t') tiers'
        = Some t'
      \<and> (\<forall>v\<in>set tiers'. min_quantity v \<le> quantity item
            \<longrightarrow> min_quantity v \<le> min_quantity t'))
   \<and> bestPrice (example_inventory 100 [\<lparr>min_quantity = 20, price_per_unit = 85\<rparr>,
                                        \<lparr>min_quantity = 20, price_per_unit = 82\<rparr>]) 20 = 85
   \<and> bestPrice (example_inventory 100 [\<lparr>min_quantity = 20, price_per_unit = 82\<rparr>,
                                        \<lparr>min_quantity = 20, price_per_unit = 85\<rparr>]) 20 = 82"
proof (rule conjI [OF impI conjI [OF impI]])
  assume "sortedTiers tiers q = t # rest"
  then show "List.find (\<lambda>u. min_quantity u \<le> q \<and> min_quantity u = min_quantity t) tiers = Some t
      \<and> (\<forall>v\<in>set tiers. min_quantity v \<le> q \<longrightarrow> min_quantity v \<le> min_quantity t)"
    using sortedTiers_head(3,4) by blast
next
  assume h: "bulk_tiers item = Some tiers' \<and> applicableTier item = Some t'"
  then obtain r where "sortedTiers tiers' (quantity item) = t' # r"
    using applicableTier_Some [of item t'] by auto
  then show "List.find (\<lambda>u. min_quantity u \<le> quantity item
                          \<and> min_quantity u = min_quantity t') tiers' = Some t'
      \<and> (\<forall>v\<in>set tiers'. min_quantity v \<le> quantity item
            \<longrightarrow> min_quantity v \<le> min_quantity t')"
    using sortedTiers_head(3,4) by blast
next
  show "bestPrice (example_inventory 100 [\<lparr>min_quantity = 20, price_per_unit = 85\<rparr>,
                                        \<lparr>min_quantity = 20, price_per_unit = 82\<rparr>]) 20 = 85
   \<and> bestPrice (example_inventory 100 [\<lparr>min_quantity = 20, price_per_unit = 82\<rparr>,
                                        \<lparr>min_quantity = 20, price_per_unit = 85\<rparr>]) 20 = 82"
    by (simp add: bestPrice_def sortedTiers_def js_sort_def example_inventory_def)
qed

theorem C3_tie_first_listed_witness:
  "sortedTiers [\<lparr>min_quantity = 5, price_per_unit = 95\<rparr>,
                \<lparr>min_quantity = 20, price_per_unit = 85\<rparr>,
                \<lparr>min_quantity = 20, price_per_unit = 82\<rparr>] 20
     = [\<lparr>min_quantity = 20, price_per_unit = 85\<rparr>, \<lparr>min_quantity = 20, price_per_unit = 82\<rparr>,
        \<lparr>min_quantity = 5, price_per_unit = 95\<rparr>]
   \<and> List.find (\<lambda>u. min_quantity u \<le> 20 \<and> min_quantity u = 20)
        [\<lparr>min_quantity = 5, price_per_unit = 95\<rparr>,
         \<lparr>min_quantity = 20, price_per_unit = 85\<rparr>,
         \<lparr>min_quantity = 20, price_per_unit = 82\<rparr>]
     = Some \<lparr>min_quantity = 20, price_per_unit = 85\<rparr>
   \<and> bulk_tiers (example_line 100 [\<lparr>min_quantity = 20, price_per_unit = 82\<rparr>,
                                    \<lparr>min_quantity = 20, price_per_unit = 85\<rparr>] 21)
     = Some [\<lparr>min_quantity = 20, price_per_unit = 82\<rparr>, \<lparr>min_quantity = 20, price_per_unit = 85\<rparr>]
   \<and> applicableTier (example_line 100 [\<lparr>min_quantity = 20, price_per_unit = 82\<rparr>,
                                        \<lparr>min_quantity = 20, price_per_unit = 85\<rparr>] 21)
     = Some \<lparr>min_quantity = 20, price_per_unit = 82\<rparr>
   \<and> List.find (\<lambda>u. min_quantity u \<le> 21 \<and> min_quantity u = 20)
        [\<lparr>min_quantity = 20, price_per_unit = 82\<rparr>, \<lparr>min_quantity = 20, price_per_unit = 85\<rparr>]
     = Some \<lparr>min_quantity = 20, price_per_unit = 82\<rparr>"
proof -
  let ?a = "\<lparr>min_quantity = 5, price_per_unit = 95\<rparr>"
  let ?b = "\<lparr>min_quantity = 20, price_per_unit = 85\<rparr>"
  let ?c = "\<lparr>min_quantity = 20, price_per_unit = 82\<rparr>"
  have s: "sortedTiers [?a, ?b, ?c] 20 = [?b, ?c, ?a]"
    by (simp add: sortedTiers_def js_sort_def)
  have l: "bulk_tiers (example_line 100 [?c, ?b] 21) = Some [?c, ?b]"
      "quantity (example_line 100 [?c, ?b] 21) = 21"
    by (simp_all add: example_line_def)
  have a: "applicableTier (example_line 100 [?c, ?b] 21) = Some ?c"
    by (simp add: applicableTier_def js_sort_def example_line_def)
  show ?thesis
    using C3_tie_first_listed
      [of "[?a, ?b, ?c]" 20 ?b "[?c, ?a]" "example_line 100 [?c, ?b] 21" "[?c, ?b]" ?c]
      s l a
    by simp
qed

text \<open>
  C4, evaluated. For the cart line with base price 100, the tiers 10 \<rightarrow> 90, 25 \<rightarrow> 80,
  50 \<rightarrow> 70 and quantity 30, \<open>handleSubmit\<close> stores the unit price 90 (the first tier
  of the array that the quantity qualifies for) beside the line total 2400 (80 a unit,
  from \<open>calculateItemPrice\<close>): the stored total is not the stored unit price times the
  quantity.
\<close>

theorem C4_stored_unit_price_disagrees:
  "handleSubmit True [example_line 100 tiers_10_25_50 30]
     = Some \<lparr>items = [\<lparr>line_inventory_id = ''i1'', line_name = ''rice'', line_quantity = 30,
                        unit_price = 90, total_price = 2400\<rparr>],
             insert_total_amount = 2400, confirmed = False\<rparr>
   \<and> unit_price (submitted_item (example_line 100 tiers_10_25_50 30))
        * of_int (line_quantity (submitted_item (example_line 100 tiers_10_25_50 30)))
     \<noteq> total_price (submitted_item (example_line 100 tiers_10_25_50 30))"
  by (simp add: handleSubmit_def submitted_item_def submitted_unit_price_def getTotalAmount_def
        calculateItemPrice_def applicableTier_def js_sort_def example_line_def
        tiers_10_25_50_def)

theorem C4_stored_unit_price_disagrees_witness:
  "\<not> (\<not> True \<or> length [example_line 100 tiers_10_25_50 30] = 0)
   \<and> map unit_price (items (the (handleSubmit True [example_line 100 tiers_10_25_50 30]))) = [90]
   \<and> map total_price (items (the (handleSubmit True [example_line 100 tiers_10_25_50 30])))
       = [2400]"
  using C4_stored_unit_price_disagrees by simp

text \<open>
  C5, evaluated. For an item with base price 0 and no tiers, quantity 1 gives the
  savings percentage \<^verbatim>\<open>NaN\<close> (0 divided by 0); with a tier 1 \<rightarrow> 5 it gives
  \<^verbatim>\<open>-Infinity\<close> (\<open>-5\<close> divided by 0). Neither is 0: the division is not guarded.
\<close>

theorem C5_zero_base_price_not_guarded:
  "savingsPercentage (example_inventory 0 []) 1 = NaN
   \<and> savingsPercentage (example_inventory 0 [\<lparr>min_quantity = 1, price_per_unit = 5\<rparr>]) 1
     = NegInfinity
   \<and> serve [''i1'' \<mapsto> example_inventory 0 []] \<lparr>req_inventory_id = ''i1'', total_quantity = 1\<rparr>
     = \<lparr>status = 200,
        body = Pricing \<lparr>res_inventory_id = ''i1'', res_total_quantity = 1, res_base_price = 0,
                        discounted_price = 0, res_total_amount = 0, savings_amount = 0,
                        savings_percentage = NaN, res_applicable_tier = None\<rparr>\<rparr>"
  by (simp add: serve_def single_def savingsPercentage_def js_divide_def negative_zero_def
        savings_def originalTotal_def discountedTotal_def bestPrice_def sortedTiers_def
        js_sort_def applicable_tier_def example_inventory_def)

text \<open>
  C6, as the code has it. The claim that a request with a quantity below 1 fails with an
  InvalidArgument error does not hold: for a known item, the requests with quantity 0
  and with quantity -3 are answered with status 200 and a pricing body.
\<close>

theorem C6_quantity_not_validated_counterexample:
  "serve [''i1'' \<mapsto> example_inventory 100 tiers_10_25_50]
       \<lparr>req_inventory_id = ''i1'', total_quantity = 0\<rparr>
     = \<lparr>status = 200,
        body = Pricing \<lparr>res_inventory_id = ''i1'', res_total_quantity = 0, res_base_price = 100,
                        discounted_price = 100, res_total_amount = 0, savings_amount = 0,
                        savings_percentage = NaN, res_applicable_tier = None\<rparr>\<rparr>
   \<and> serve [''i1'' \<mapsto> example_inventory 100 tiers_10_25_50]
       \<lparr>req_inventory_id = ''i1'', total_quantity = - 3\<rparr>
     = \<lparr>status = 200,
        body = Pricing \<lparr>res_inventory_id = ''i1'', res_total_quantity = - 3, res_base_price = 100,
                        discounted_price = 100, res_total_amount = - 300, savings_amount = 0,
                        savings_percentage = Finite 0, res_applicable_tier = None\<rparr>\<rparr>"
proof -
  have "\<lfloor>(1::rat) / 2\<rfloor> = 0" by code_simp
  then have "toFixed1 0 = 0" by (simp add: toFixed1_def)
  then show ?thesis
    by (simp add: serve_def single_def savingsPercentage_def js_divide_def negative_zero_def
        savings_def originalTotal_def discountedTotal_def bestPrice_def sortedTiers_def
        js_sort_def applicable_tier_def example_inventory_def tiers_10_25_50_def)
qed

text \<open>
  C6, amended. A request naming an inventory id that has no row is answered with
  status 400 and the error of the lookup. A request naming a known item is answered
  with status 200 and a pricing body whatever its quantity: there is no failure for a
  quantity below 1, hence no second kind of failure to tell apart. In particular an
  item with no tiers and base price 0 is answered with status 200 and the price, the
  total and the savings amount all 0.
\<close>

theorem C6_only_lookup_fails:
  "(table (req_inventory_id req) = None \<longrightarrow>
      serve table req = \<lparr>status = 400, body = ErrorMessage NoSingleRow\<rparr>)
   \<and> (table' (req_inventory_id req') = Some inventory \<longrightarrow>
      status (serve table' req') = 200
      \<and> (\<exists>r. body (serve table' req') = Pricing r
            \<and> discounted_price r = bestPrice inventory (total_quantity req')
            \<and> res_total_amount r = bestPrice inventory (total_quantity req')
                                      * of_int (total_quantity req')))
   \<and> (table'' (req_inventory_id req'') = Some inventory'' \<and> base_price inventory'' = 0
       \<and> (bulk_tiers inventory'' = None \<or> bulk_tiers inventory'' = Some []) \<longrightarrow>
      status (serve table'' req'') = 200
      \<and> (\<exists>r. body (serve table'' req'') = Pricing r
            \<and> discounted_price r = 0 \<and> res_total_amount r = 0 \<and> savings_amount r = 0))"
proof (rule conjI [OF impI conjI [OF impI impI]])
  assume "table (req_inventory_id req) = None"
  then show "serve table req = \<lparr>status = 400, body = ErrorMessage NoSingleRow\<rparr>"
    by (simp add: serve_def single_def)
next
  assume "table' (req_inventory_id req') = Some inventory"
  then show "status (serve table' req') = 200
      \<and> (\<exists>r. body (serve table' req') = Pricing r
            \<and> discounted_price r = bestPrice inventory (total_quantity req')
            \<and> res_total_amount r = bestPrice inventory (total_quantity req')
                                      * of_int (total_quantity req'))"
    by (simp add: serve_def single_def discountedTotal_def)
next
  assume h: "table'' (req_inventory_id req'') = Some inventory'' \<and> base_price inventory'' = 0
       \<and> (bulk_tiers inventory'' = None \<or> bulk_tiers inventory'' = Some [])"
  then have "bestPrice inventory'' (total_quantity req'') = 0"
    by (auto simp: bestPrice_def)
  then show "status (serve table'' req'') = 200
      \<and> (\<exists>r. body (serve table'' req'') = Pricing r
            \<and> discounted_price r = 0 \<and> res_total_amount r = 0 \<and> savings_amount r = 0)"
    using h by (simp add: serve_def single_def discountedTotal_def savings_def originalTotal_def)
qed

theorem C6_only_lookup_fails_witness:
  "[''i1'' \<mapsto> example_inventory 0 []]
       (req_inventory_id \<lparr>req_inventory_id = ''zz'', total_quantity = 3\<rparr>) = None
   \<and> serve [''i1'' \<mapsto> example_inventory 0 []] \<lparr>req_inventory_id = ''zz'', total_quantity = 3\<rparr>
       = \<lparr>status = 400, body = ErrorMessage NoSingleRow\<rparr>
   \<and> [''i1'' \<mapsto> example_inventory 0 []]
       (req_inventory_id \<lparr>req_inventory_id = ''i1'', total_quantity = 0\<rparr>)
       = Some (example_inventory 0 [])
   \<and> base_price (example_inventory 0 []) = 0
   \<and> (bulk_tiers (example_inventory 0 []) = None \<or> bulk_tiers (example_inventory 0 []) = Some [])
   \<and> status (serve [''i1'' \<mapsto> example_inventory 0 []]
                 \<lparr>req_inventory_id = ''i1'', total_quantity = 0\<rparr>) = 200"
proof -
  let ?table = "[''i1'' \<mapsto> example_inventory 0 []]"
  let ?bad = "\<lparr>req_inventory_id = ''zz'', total_quantity = 3\<rparr>"
  let ?ok = "\<lparr>req_inventory_id = ''i1'', total_quantity = 0\<rparr>"
  have h: "?table (req_inventory_id ?bad) = None"
      "?table (req_inventory_id ?ok) = Some (example_inventory 0 [])"
      "base_price (example_inventory 0 []) = 0"
      "bulk_tiers (example_inventory 0 []) = Some []"
    by (simp_all add: example_inventory_def)
  show ?thesis
    using C6_only_lookup_fails
      [of ?table ?bad ?table ?ok "example_inventory 0 []" ?table ?ok "example_inventory 0 []"] h
    by simp
qed

subsection \<open>The cart\<close>

lemma addToCart_positive:
  assumes "\<forall>line\<in>set cart. quantity line > 0" and "minimum_quantity item \<ge> 1"
  shows "\<forall>line\<in>set (addToCart cart item). quantity line > 0"
proof (cases "List.find (\<lambda>cartItem. inventory_id cartItem = item_id item) cart")
  case None
  then show ?thesis using assms by (auto simp: addToCart_def)
next
  case (Some existingItem)
  then show ?thesis using assms by (fastforce simp: addToCart_def)
qed

lemma updateQuantity_positive:
  assumes "\<forall>line\<in>set cart. quantity line > 0"
  shows "\<forall>line\<in>set (updateQuantity cart i q). quantity line > 0"
  using assms by (auto simp: updateQuantity_def)

lemma cart_step_positive:
  "\<forall>line\<in>set cart. quantity line > 0 \<Longrightarrow> minimum_ok a
   \<Longrightarrow> \<forall>line\<in>set (cart_step cart a). quantity line > 0"
  by (cases a) (simp_all add: addToCart_positive updateQuantity_positive)

lemma foldl_cart_step_positive:
  "\<forall>line\<in>set cart. quantity line > 0 \<Longrightarrow> \<forall>a\<in>set actions. minimum_ok a
   \<Longrightarrow> \<forall>line\<in>set (foldl cart_step cart actions). quantity line > 0"
proof (induction actions arbitrary: cart)
  case Nil
  then show ?case by simp
next
  case (Cons a actions)
  have "\<forall>line\<in>set (cart_step cart a). quantity line > 0"
    using Cons.prems cart_step_positive [of cart a] by simp
  then show ?case using Cons.IH Cons.prems by simp
qed

text \<open>
  C10. Provided every item that is added has \<open>minimum_quantity \<ge> 1\<close>, every cart
  reached from the empty cart by \<open>addToCart\<close> and \<open>updateQuantity\<close> holds only lines
  with a positive quantity. \<open>updateQuantity\<close> with a quantity of 0 or less filters the
  line out of the cart, and adding an item that is not in the cart appends a line whose
  quantity is the item's \<open>minimum_quantity\<close>.
\<close>

theorem C10_cart_lines_positive:
  "((\<forall>a\<in>set actions. minimum_ok a) \<longrightarrow> (\<forall>line\<in>set (run_cart actions). quantity line > 0))
   \<and> (q \<le> 0 \<longrightarrow>
        updateQuantity cart i q = filter (\<lambda>item. inventory_id item \<noteq> i) cart
        \<and> (\<forall>line\<in>set (updateQuantity cart i q). inventory_id line \<noteq> i))
   \<and> ((\<forall>line\<in>set cart'. inventory_id line \<noteq> item_id item) \<longrightarrow>
        (\<exists>line. addToCart cart' item = cart' @ [line]
            \<and> inventory_id line = item_id item
            \<and> quantity line = minimum_quantity item))"
proof (rule conjI [OF impI conjI [OF impI impI]])
  assume "\<forall>a\<in>set actions. minimum_ok a"
  then show "\<forall>line\<in>set (run_cart actions). quantity line > 0"
    unfolding run_cart_def using foldl_cart_step_positive [of "[]" actions] by simp
next
  assume "q \<le> 0"
  then show "updateQuantity cart i q = filter (\<lambda>item. inventory_id item \<noteq> i) cart
        \<and> (\<forall>line\<in>set (updateQuantity cart i q). inventory_id line \<noteq> i)"
    by (simp add: updateQuantity_def)
next
  assume "\<forall>line\<in>set cart'. inventory_id line \<noteq> item_id item"
  then have "List.find (\<lambda>cartItem. inventory_id cartItem = item_id item) cart' = None"
    by (simp add: find_None_iff)
  then show "\<exists>line. addToCart cart' item = cart' @ [line]
            \<and> inventory_id line = item_id item
            \<and> quantity line = minimum_quantity item"
    by (simp add: addToCart_def)
qed

theorem C10_cart_lines_positive_witness:
  "list_all minimum_ok
       [AddToCart ((example_inventory 100 tiers_10_25_50)\<lparr>minimum_quantity := 2\<rparr>),
        AddToCart ((example_inventory 100 tiers_10_25_50)\<lparr>minimum_quantity := 2\<rparr>),
        UpdateQuantity ''i1'' 7]
   \<and> map quantity
        (run_cart [AddToCart ((example_inventory 100 tiers_10_25_50)\<lparr>minimum_quantity := 2\<rparr>),
                   AddToCart ((example_inventory 100 tiers_10_25_50)\<lparr>minimum_quantity := 2\<rparr>),
                   UpdateQuantity ''i1'' 7]) = [7]
   \<and> list_all (\<lambda>line. 0 < quantity line)
        (run_cart [AddToCart ((example_inventory 100 tiers_10_25_50)\<lparr>minimum_quantity := 2\<rparr>),
                   AddToCart ((example_inventory 100 tiers_10_25_50)\<lparr>minimum_quantity := 2\<rparr>),
                   UpdateQuantity ''i1'' 7])
   \<and> (0::int) \<le> 0
   \<and> updateQuantity [example_line 100 tiers_10_25_50 1] ''i1'' 0 = []
   \<and> addToCart [] ((example_inventory 100 tiers_10_25_50)\<lparr>minimum_quantity := 2\<rparr>)
       = [example_line 100 tiers_10_25_50 2]"
proof -
  let ?item = "(example_inventory 100 tiers_10_25_50)\<lparr>minimum_quantity := 2\<rparr>"
  let ?actions = "[AddToCart ?item, AddToCart ?item, UpdateQuantity ''i1'' 7]"
  have h: "\<forall>a\<in>set ?actions. minimum_ok a"
    by (simp add: example_inventory_def)
  have r: "map quantity (run_cart ?actions) = [7]"
    by (simp add: run_cart_def addToCart_def updateQuantity_def example_inventory_def)
  have a: "addToCart [] ?item = [example_line 100 tiers_10_25_50 2]"
    by (simp add: addToCart_def example_inventory_def example_line_def)
  have u: "updateQuantity [example_line 100 tiers_10_25_50 1] ''i1'' 0 = []"
    by (simp add: updateQuantity_def example_line_def)
  have e: "\<forall>line\<in>set []. inventory_id line \<noteq> item_id ?item"
    by simp
  have p: "\<forall>line\<in>set (run_cart ?actions). quantity line > 0"
    using C10_cart_lines_positive
      [of ?actions 0 "[example_line 100 tiers_10_25_50 1]" "''i1''" "[]" ?item] h
    by blast
  show ?thesis
    using h r a u p by (simp add: list_all_iff)
qed

subsection \<open>The status of a group order\<close>






subsection \<open>The running total of the hook\<close>

lemma foldl_js_plus_finite:
  "foldl (\<lambda>sum p. js_plus sum (Finite (total_amount p))) (Finite a) data
     = Finite (a + sum_list (map total_amount data))"
  by (induction data arbitrary: a) (simp_all add: add.assoc)

lemma reduce_total_finite:
  "reduce_total data = Finite (sum_list (map total_amount data))"
  by (simp add: reduce_total_def foldl_js_plus_finite)

lemma sum_list_mset_cong:
  fixes f :: "'a \<Rightarrow> rat"
  assumes "mset xs = mset ys"
  shows "sum_list (map f xs) = sum_list (map f ys)"
proof -
  have "sum_mset (image_mset f (mset xs)) = sum_mset (image_mset f (mset ys))"
    using assms by simp
  then show ?thesis by (simp add: sum_mset_sum_list [symmetric] del: sum_mset_sum_list)
qed

lemma participants_payload_of:
  assumes "mset (participants s) = mset rows"
  shows "mset (participants (on_postgres_changes s (payload_of full rows operation)))
           = mset (apply_operation rows operation)"
  using assms by (cases operation) simp_all

lemma listed_current_Op:
  assumes "listed_current st"
  shows "listed_current (happen full st (Op operation))"
  using participants_payload_of
          [of "foldl on_postgres_changes (hook st) (undelivered st)" "current st" full operation]
        assms
  by (simp add: listed_current_def)

lemma listed_current_Deliver:
  assumes "listed_current st"
  shows "listed_current (happen full st Deliver)"
  using assms by (cases "undelivered st") (simp_all add: listed_current_def)

lemma total_summed_fetch:
  "total_summed (fetchParticipants (Inr data) s)"
  by (simp add: total_summed_def fetchParticipants_def reduce_total_finite)

lemma total_summed_insert:
  "total_summed s \<Longrightarrow> is_insert e \<Longrightarrow> total_summed (on_postgres_changes s e)"
  by (cases e) (simp_all add: total_summed_def)

lemma settled_run:
  assumes "settled full listed summed (undelivered st) (current st) happenings"
    and "listed \<longrightarrow> listed_current st"
    and "summed \<longrightarrow> total_summed (hook st)"
  shows "undelivered (foldl (happen full) st happenings) = []
         \<and> mset (participants (hook (foldl (happen full) st happenings)))
             = mset (current (foldl (happen full) st happenings))
         \<and> total_summed (hook (foldl (happen full) st happenings))"
  using assms
proof (induction happenings arbitrary: st listed summed)
  case Nil
  then show ?case by (simp add: listed_current_def)
next
  case (Cons h happenings)
  show ?case
  proof (cases h)
    case (Op operation)
    let ?st = "happen full st h"
    have "settled full listed summed (undelivered ?st) (current ?st) happenings"
      using Cons.prems(1) Op by simp
    moreover have "listed \<longrightarrow> listed_current ?st"
      using Cons.prems(2) Op listed_current_Op by blast
    moreover have "summed \<longrightarrow> total_summed (hook ?st)"
      using Cons.prems(3) Op by simp
    ultimately show ?thesis using Cons.IH [of listed summed ?st] by simp
  next
    case Deliver
    let ?st = "happen full st h"
    show ?thesis
    proof (cases "undelivered st")
      case Nil
      then have "?st = st" using Deliver by simp
      moreover have "settled full listed summed (undelivered st) (current st) happenings"
        using Cons.prems(1) Deliver Nil by simp
      ultimately show ?thesis
        using Cons.IH [of listed summed st] Cons.prems(2,3) by simp
    next
      case (Cons e es)
      have "settled full listed (summed \<and> is_insert e) (undelivered ?st) (current ?st) happenings"
        using Cons.prems(1) Deliver Cons by simp
      moreover have "listed \<longrightarrow> listed_current ?st"
        using Cons.prems(2) Deliver listed_current_Deliver by blast
      moreover have "summed \<and> is_insert e \<longrightarrow> total_summed (hook ?st)"
        using Cons.prems(3) Deliver Cons total_summed_insert by simp
      ultimately show ?thesis
        using Cons.IH [of listed "summed \<and> is_insert e" ?st] by simp
    qed
  next
    case (FetchDone result)
    let ?st = "happen full st h"
    show ?thesis
    proof (cases result)
      case (Inl error)
      then have "?st = st" using FetchDone by (simp add: fetchParticipants_def)
      moreover have "settled full listed summed (undelivered st) (current st) happenings"
        using Cons.prems(1) FetchDone Inl by simp
      ultimately show ?thesis
        using Cons.IH [of listed summed st] Cons.prems(2,3) by simp
    next
      case (Inr data)
      let ?listed = "undelivered st = [] \<and> mset data = mset (current st)"
      have "settled full ?listed True (undelivered ?st) (current ?st) happenings"
        using Cons.prems(1) FetchDone Inr by simp
      moreover have "?listed \<longrightarrow> listed_current ?st"
        using FetchDone Inr by (simp add: listed_current_def fetchParticipants_def)
      moreover have "True \<longrightarrow> total_summed (hook ?st)"
        using FetchDone Inr total_summed_fetch by simp
      ultimately show ?thesis
        using Cons.IH [of ?listed True ?st] by simp
    qed
  qed
qed

text \<open>
  C2, as the code has it. The total of the hook is not always the sum of the current
  participations. With the participations 2400 and 1600 loaded, an edit of the second
  to 1800 whose refetch fails leaves the total 4000 beside participations that sum to
  4200. A removal of the second subtracts a \<^verbatim>\<open>payload.old.total_amount\<close> that
  the payload does not carry and leaves the total \<^verbatim>\<open>NaN\<close> beside the
  remaining 2400. When the fetch on mount fails the total stays 0. When a fetch returns
  a joined row of 500 before the payload of the join is delivered, the row is then
  listed twice and the total is 3400 beside participations that sum to 2900; when a
  fetch whose select ran before the join completes after the delivery, the joined row
  is dropped and the total is 2400. The total is a running counter that the payloads
  patch, and the only recomputation is that of a fetch.
\<close>

theorem C2_running_total_counterexample:
  "useOrderRealtime False
       [\<lparr>participant_id = ''p1'', total_amount = 2400\<rparr>,
        \<lparr>participant_id = ''p2'', total_amount = 1600\<rparr>]
       [FetchDone (Inr [\<lparr>participant_id = ''p1'', total_amount = 2400\<rparr>,
                        \<lparr>participant_id = ''p2'', total_amount = 1600\<rparr>]),
        Op (Edit \<lparr>participant_id = ''p2'', total_amount = 1800\<rparr>),
        Deliver,
        FetchDone (Inl RequestFailed)]
     = \<lparr>current = [\<lparr>participant_id = ''p1'', total_amount = 2400\<rparr>,
                    \<lparr>participant_id = ''p2'', total_amount = 1800\<rparr>],
        undelivered = [],
        hook = \<lparr>participants = [\<lparr>participant_id = ''p1'', total_amount = 2400\<rparr>,
                                 \<lparr>participant_id = ''p2'', total_amount = 1800\<rparr>],
                 totalAmount = Finite 4000\<rparr>\<rparr>
   \<and> useOrderRealtime False
       [\<lparr>participant_id = ''p1'', total_amount = 2400\<rparr>,
        \<lparr>participant_id = ''p2'', total_amount = 1600\<rparr>]
       [FetchDone (Inr [\<lparr>participant_id = ''p1'', total_amount = 2400\<rparr>,
                        \<lparr>participant_id = ''p2'', total_amount = 1600\<rparr>]),
        Op (Remove ''p2''),
        Deliver]
     = \<lparr>current = [\<lparr>participant_id = ''p1'', total_amount = 2400\<rparr>],
        undelivered = [],
        hook = \<lparr>participants = [\<lparr>participant_id = ''p1'', total_amount = 2400\<rparr>],
                 totalAmount = NaN\<rparr>\<rparr>
   \<and> useOrderRealtime False
       [\<lparr>participant_id = ''p1'', total_amount = 2400\<rparr>,
        \<lparr>participant_id = ''p2'', total_amount = 1600\<rparr>]
       [FetchDone (Inl RequestFailed)]
     = \<lparr>current = [\<lparr>participant_id = ''p1'', total_amount = 2400\<rparr>,
                    \<lparr>participant_id = ''p2'', total_amount = 1600\<rparr>],
        undelivered = [],
        hook = \<lparr>participants = [], totalAmount = Finite 0\<rparr>\<rparr>
   \<and> useOrderRealtime False
       [\<lparr>participant_id = ''p1'', total_amount = 2400\<rparr>]
       [Op (Join \<lparr>participant_id = ''p3'', total_amount = 500\<rparr>),
        FetchDone (Inr [\<lparr>participant_id = ''p1'', total_amount = 2400\<rparr>,
                        \<lparr>participant_id = ''p3'', total_amount = 500\<rparr>]),
        Deliver]
     = \<lparr>current = [\<lparr>participant_id = ''p1'', total_amount = 2400\<rparr>,
                    \<lparr>participant_id = ''p3'', total_amount = 500\<rparr>],
        undelivered = [],
        hook = \<lparr>participants = [\<lparr>participant_id = ''p1'', total_amount = 2400\<rparr>,
                                 \<lparr>participant_id = ''p3'', total_amount = 500\<rparr>,
                                 \<lparr>participant_id = ''p3'', total_amount = 500\<rparr>],
                 totalAmount = Finite 3400\<rparr>\<rparr>
   \<and> useOrderRealtime False
       [\<lparr>participant_id = ''p1'', total_amount = 2400\<rparr>]
       [Op (Join \<lparr>participant_id = ''p3'', total_amount = 500\<rparr>),
        Deliver,
        FetchDone (Inr [\<lparr>participant_id = ''p1'', total_amount = 2400\<rparr>])]
     = \<lparr>current = [\<lparr>participant_id = ''p1'', total_amount = 2400\<rparr>,
                    \<lparr>participant_id = ''p3'', total_amount = 500\<rparr>],
        undelivered = [],
        hook = \<lparr>participants = [\<lparr>participant_id = ''p1'', total_amount = 2400\<rparr>],
                 totalAmount = Finite 2400\<rparr>\<rparr>"
  by (simp add: useOrderRealtime_def fetchParticipants_def initial_hook_state_def
        reduce_total_def js_minus_def)

text \<open>
  C2, amended. In the \<open>useOrderRealtime\<close> hook the total equals the sum of the
  current participations' \<open>total_amount\<close> values whenever the hook is settled: every
  payload has been delivered, the list was last loaded by a successful fetch that
  completed with no payload outstanding and returned the participations as they then
  were, and the total was last set by a successful fetch or by joins delivered after
  one, with no edit and no removal delivered since. The hook then lists exactly the
  current participations and its total is the left-to-right sum of the listed amounts,
  as a fetch computes it; with exact amounts that is their sum. Only a fetch recomputes
  the total: a join adds the joined amount to the running total, an edit leaves the
  total to its refetch, and a removal subtracts the amount that its payload carries.
  For a join the running total and the recomputed sum are the same chain of additions,
  so their equality does not rest on the arithmetic being exact.
\<close>

theorem C2_total_when_settled:
  "(settled full False True [] rows happenings \<longrightarrow>
      undelivered (useOrderRealtime full rows happenings) = []
      \<and> totalAmount (hook (useOrderRealtime full rows happenings))
        = or_zero (reduce_total (participants (hook (useOrderRealtime full rows happenings))))
      \<and> mset (participants (hook (useOrderRealtime full rows happenings)))
        = mset (current (useOrderRealtime full rows happenings))
      \<and> totalAmount (hook (useOrderRealtime full rows happenings))
        = Finite (sum_list (map total_amount (current (useOrderRealtime full rows happenings)))))
   \<and> totalAmount (fetchParticipants (Inr data) s) = or_zero (reduce_total data)
   \<and> totalAmount (on_postgres_changes s (INSERT new))
        = js_plus (totalAmount s) (Finite (total_amount new))
   \<and> totalAmount (on_postgres_changes s (UPDATE new')) = totalAmount s
   \<and> totalAmount (on_postgres_changes s (DELETE old))
        = js_minus (totalAmount s) (number_of_field (old_total_amount old))"
proof (rule conjI [OF impI])
  assume h: "settled full False True [] rows happenings"
  let ?init = "\<lparr>current = rows, undelivered = [], hook = initial_hook_state\<rparr>"
  let ?st = "useOrderRealtime full rows happenings"
  have "total_summed (hook ?init)"
    by (simp add: total_summed_def initial_hook_state_def)
  then have inv: "undelivered ?st = []
         \<and> mset (participants (hook ?st)) = mset (current ?st)
         \<and> total_summed (hook ?st)"
    unfolding useOrderRealtime_def
    using h settled_run [of full False True ?init happenings] by simp
  have t: "totalAmount (hook ?st)
             = Finite (sum_list (map total_amount (participants (hook ?st))))"
    using inv unfolding total_summed_def by blast
  have "sum_list (map total_amount (participants (hook ?st)))
               = sum_list (map total_amount (current ?st))"
    using inv sum_list_mset_cong by blast
  then show "undelivered ?st = []
      \<and> totalAmount (hook ?st) = or_zero (reduce_total (participants (hook ?st)))
      \<and> mset (participants (hook ?st)) = mset (current ?st)
      \<and> totalAmount (hook ?st) = Finite (sum_list (map total_amount (current ?st)))"
    using inv t by (simp add: reduce_total_finite)
next
  show "totalAmount (fetchParticipants (Inr data) s) = or_zero (reduce_total data)
   \<and> totalAmount (on_postgres_changes s (INSERT new))
        = js_plus (totalAmount s) (Finite (total_amount new))
   \<and> totalAmount (on_postgres_changes s (UPDATE new')) = totalAmount s
   \<and> totalAmount (on_postgres_changes s (DELETE old))
        = js_minus (totalAmount s) (number_of_field (old_total_amount old))"
    by (simp add: fetchParticipants_def)
qed

theorem C2_total_when_settled_witness:
  "settled False False True []
       [\<lparr>participant_id = ''p1'', total_amount = 2400\<rparr>,
        \<lparr>participant_id = ''p2'', total_amount = 1600\<rparr>]
       [FetchDone (Inr [\<lparr>participant_id = ''p2'', total_amount = 1600\<rparr>,
                        \<lparr>participant_id = ''p1'', total_amount = 2400\<rparr>]),
        Op (Edit \<lparr>participant_id = ''p2'', total_amount = 1800\<rparr>),
        Deliver,
        FetchDone (Inr [\<lparr>participant_id = ''p1'', total_amount = 2400\<rparr>,
                        \<lparr>participant_id = ''p2'', total_amount = 1800\<rparr>]),
        Op (Join \<lparr>participant_id = ''p3'', total_amount = 500\<rparr>),
        Deliver]
   \<and> useOrderRealtime False
       [\<lparr>participant_id = ''p1'', total_amount = 2400\<rparr>,
        \<lparr>participant_id = ''p2'', total_amount = 1600\<rparr>]
       [FetchDone (Inr [\<lparr>participant_id = ''p2'', total_amount = 1600\<rparr>,
                        \<lparr>participant_id = ''p1'', total_amount = 2400\<rparr>]),
        Op (Edit \<lparr>participant_id = ''p2'', total_amount = 1800\<rparr>),
        Deliver,
        FetchDone (Inr [\<lparr>participant_id = ''p1'', total_amount = 2400\<rparr>,
                        \<lparr>participant_id = ''p2'', total_amount = 1800\<rparr>]),
        Op (Join \<lparr>participant_id = ''p3'', total_amount = 500\<rparr>),
        Deliver]
     = \<lparr>current = [\<lparr>participant_id = ''p1'', total_amount = 2400\<rparr>,
                    \<lparr>participant_id = ''p2'', total_amount = 1800\<rparr>,
                    \<lparr>participant_id = ''p3'', total_amount = 500\<rparr>],
        undelivered = [],
        hook = \<lparr>participants = [\<lparr>participant_id = ''p1'', total_amount = 2400\<rparr>,
                                 \<lparr>participant_id = ''p2'', total_amount = 1800\<rparr>,
                                 \<lparr>participant_id = ''p3'', total_amount = 500\<rparr>],
                 totalAmount = Finite 4700\<rparr>\<rparr>"
proof -
  let ?p1 = "\<lparr>participant_id = ''p1'', total_amount = 2400\<rparr>"
  let ?p2 = "\<lparr>participant_id = ''p2'', total_amount = 1600\<rparr>"
  let ?p2' = "\<lparr>participant_id = ''p2'', total_amount = 1800\<rparr>"
  let ?p3 = "\<lparr>participant_id = ''p3'', total_amount = 500\<rparr>"
  let ?hs = "[FetchDone (Inr [?p2, ?p1]), Op (Edit ?p2'), Deliver,
              FetchDone (Inr [?p1, ?p2']), Op (Join ?p3), Deliver]"
  let ?st = "useOrderRealtime False [?p1, ?p2] ?hs"
  have o: "settled False False True [] [?p1, ?p2] ?hs"
    by (simp add: add_mset_commute)
  have c: "current ?st = [?p1, ?p2', ?p3]"
    by (simp add: useOrderRealtime_def)
  have p: "participants (hook ?st) = [?p1, ?p2', ?p3]"
    by (simp add: useOrderRealtime_def fetchParticipants_def initial_hook_state_def)
  have "settled False False True [] [?p1, ?p2] ?hs \<longrightarrow>
      undelivered ?st = []
      \<and> totalAmount (hook ?st) = or_zero (reduce_total (participants (hook ?st)))
      \<and> mset (participants (hook ?st)) = mset (current ?st)
      \<and> totalAmount (hook ?st) = Finite (sum_list (map total_amount (current ?st)))"
    by (rule conjunct1 [OF C2_total_when_settled])
  then have u: "undelivered ?st = []"
    and "totalAmount (hook ?st) = Finite (sum_list (map total_amount (current ?st)))"
    using o by blast+
  then have "totalAmount (hook ?st) = Finite 4700"
    unfolding c by simp
  then have "hook ?st = \<lparr>participants = [?p1, ?p2', ?p3], totalAmount = Finite 4700\<rparr>"
    using p by (cases "hook ?st") simp
  then have "?st = \<lparr>current = [?p1, ?p2', ?p3], undelivered = [],
                    hook = \<lparr>participants = [?p1, ?p2', ?p3], totalAmount = Finite 4700\<rparr>\<rparr>"
    using c u by (cases ?st) simp
  then show ?thesis using o by simp
qed

end
